theory Spec2Isabelle
  imports Complex_Main
begin

section \<open>The JavaScript built-ins the hooks rely on\<close>

text \<open>
  The schedule hook (\<^verbatim>\<open>src/client/src/hooks/useSchedules.js\<close>) and the skill form
  (\<^verbatim>\<open>src/client/src/components/Skills/AddSkillModal.jsx\<close>) are embedded as HOL
  functions. Three conventions hold throughout.

  \<^item> A JavaScript number is an exact rational (or an integer where the code only
    counts); \<open>NaN\<close> is a value of its own. IEEE-754 rounding is not part of the model.
  \<^item> A time value is an integer number of milliseconds since the epoch, and
    \<open>None\<close> is the time value of an Invalid Date. The host's time zone is a constant
    offset \<open>tz\<close> in minutes east of UTC (daylight-saving changes are not modelled).
  \<^item> \<open>Date.parse\<close> accepts exactly the ECMAScript date-time string format
    (\<^verbatim>\<open>YYYY-MM-DD\<close>, \<^verbatim>\<open>YYYY-MM-DDTHH:mm:ss.sssZ\<close> and its shorter forms); every
    other string is an Invalid Date, as the standard allows an engine to decide.
\<close>

datatype exn =
    Error string            \<comment> \<open>\<^verbatim>\<open>throw new Error(message)\<close>\<close>
  | Rejected "string option" \<comment> \<open>a rejected request, with \<^verbatim>\<open>err.message\<close> if any\<close>
  | RangeError              \<comment> \<open>\<^verbatim>\<open>toISOString\<close> of an Invalid Date\<close>
  | TypeError               \<comment> \<open>a property read on \<^verbatim>\<open>undefined\<close> or \<^verbatim>\<open>null\<close>\<close>

datatype number = NaN | Num rat

fun plus_number :: "number \<Rightarrow> number \<Rightarrow> number" where
  "plus_number (Num a) (Num b) = Num (a + b)"
| "plus_number _ _ = NaN"

definition msPerDay :: int where
  "msPerDay = 86400000"

definition msPerHour :: int where
  "msPerHour = 3600000"

definition msPerMinute :: int where
  "msPerMinute = 60000"

definition TimeClip :: "int \<Rightarrow> int option" where
  "TimeClip t = (if \<bar>t\<bar> \<le> 8640000000000000 then Some t else None)"

definition isLeapYear :: "int \<Rightarrow> bool" where
  "isLeapYear y = (y mod 4 = 0 \<and> (y mod 100 \<noteq> 0 \<or> y mod 400 = 0))"

definition daysInMonth :: "int \<Rightarrow> int \<Rightarrow> int" where
  "daysInMonth y m =
     (if m = 2 then (if isLeapYear y then 29 else 28)
      else if m = 4 \<or> m = 6 \<or> m = 9 \<or> m = 11 then 30 else 31)"

text \<open>Day number (days since 1970-01-01) of a proleptic Gregorian date, and back.\<close>

definition daysFromCivil :: "int \<Rightarrow> int \<Rightarrow> int \<Rightarrow> int" where
  "daysFromCivil y m d =
     (let y' = (if m \<le> 2 then y - 1 else y);
          era = y' div 400;
          yoe = y' mod 400;
          doy = (153 * (if m > 2 then m - 3 else m + 9) + 2) div 5 + d - 1;
          doe = yoe * 365 + yoe div 4 - yoe div 100 + doy
      in era * 146097 + doe - 719468)"

definition civilFromDays :: "int \<Rightarrow> int \<times> int \<times> int" where
  "civilFromDays z =
     (let z' = z + 719468;
          era = z' div 146097;
          doe = z' mod 146097;
          yoe = (doe - doe div 1460 + doe div 36524 - doe div 146096) div 365;
          doy = doe - (365 * yoe + yoe div 4 - yoe div 100);
          mp = (5 * doy + 2) div 153;
          d = doy - (153 * mp + 2) div 5 + 1;
          m = (if mp < 10 then mp + 3 else mp - 9);
          y = yoe + era * 400 + (if m \<le> 2 then 1 else 0)
      in (y, m, d))"

definition digit_of :: "char \<Rightarrow> int option" where
  "digit_of c =
     (let n = (of_char c :: int) in if 48 \<le> n \<and> n \<le> 57 then Some (n - 48) else None)"

fun number_of :: "int \<Rightarrow> string \<Rightarrow> int option" where
  "number_of acc [] = Some acc"
| "number_of acc (c # cs) =
     (case digit_of c of None \<Rightarrow> None | Some d \<Rightarrow> number_of (10 * acc + d) cs)"

definition digits :: "nat \<Rightarrow> string \<Rightarrow> int option" where
  "digits n s = (if length s = n \<and> 0 < n then number_of 0 s else None)"

definition makeDay :: "int \<Rightarrow> int \<Rightarrow> int \<Rightarrow> int option" where
  "makeDay y m d =
     (if 1 \<le> m \<and> m \<le> 12 \<and> 1 \<le> d \<and> d \<le> daysInMonth y m
      then Some (daysFromCivil y m d) else None)"

definition parseMonthDay :: "int \<Rightarrow> string \<Rightarrow> int option" where
  "parseMonthDay y r =
     (if r = [] then makeDay y 1 1
      else if length r = 3 \<and> r ! 0 = CHR ''-'' then
        (case digits 2 (drop 1 r) of None \<Rightarrow> None | Some m \<Rightarrow> makeDay y m 1)
      else if length r = 6 \<and> r ! 0 = CHR ''-'' \<and> r ! 3 = CHR ''-'' then
        (case digits 2 (take 2 (drop 1 r)) of
           None \<Rightarrow> None
         | Some m \<Rightarrow> (case digits 2 (drop 4 r) of None \<Rightarrow> None | Some d \<Rightarrow> makeDay y m d))
      else None)"

text \<open>
  The date part: \<^verbatim>\<open>YYYY\<close>, \<^verbatim>\<open>YYYY-MM\<close> or \<^verbatim>\<open>YYYY-MM-DD\<close>, the year also in the
  expanded form of a sign and six digits. The result is the day number.
\<close>

definition parseDatePart :: "string \<Rightarrow> int option" where
  "parseDatePart s =
     (case s of
        [] \<Rightarrow> None
      | c # cs \<Rightarrow>
          if c = CHR ''+'' \<or> c = CHR ''-'' then
            (case digits 6 (take 6 cs) of
               None \<Rightarrow> None
             | Some y \<Rightarrow>
                 if c = CHR ''-'' \<and> y = 0 then None
                 else parseMonthDay (if c = CHR ''-'' then - y else y) (drop 6 cs))
          else
            (case digits 4 (take 4 s) of
               None \<Rightarrow> None
             | Some y \<Rightarrow> parseMonthDay y (drop 4 s)))"

text \<open>
  The time part: \<^verbatim>\<open>HH:mm\<close>, \<^verbatim>\<open>HH:mm:ss\<close> or \<^verbatim>\<open>HH:mm:ss.sss\<close>. The result is
  the number of milliseconds since midnight.
\<close>

definition makeTime :: "int \<Rightarrow> int \<Rightarrow> int \<Rightarrow> int \<Rightarrow> int option" where
  "makeTime h m s ms =
     (if (h < 24 \<and> m < 60 \<and> s < 60) \<or> (h = 24 \<and> m = 0 \<and> s = 0 \<and> ms = 0)
      then Some (h * 3600000 + m * 60000 + s * 1000 + ms) else None)"

definition parseTimePart :: "string \<Rightarrow> int option" where
  "parseTimePart t =
     (if length t = 5 \<and> t ! 2 = CHR '':'' then
        (case digits 2 (take 2 t) of
           None \<Rightarrow> None
         | Some h \<Rightarrow>
            (case digits 2 (drop 3 t) of None \<Rightarrow> None | Some m \<Rightarrow> makeTime h m 0 0))
      else if length t = 8 \<and> t ! 2 = CHR '':'' \<and> t ! 5 = CHR '':'' then
        (case digits 2 (take 2 t) of
           None \<Rightarrow> None
         | Some h \<Rightarrow>
            (case digits 2 (take 2 (drop 3 t)) of
               None \<Rightarrow> None
             | Some m \<Rightarrow>
                (case digits 2 (drop 6 t) of None \<Rightarrow> None | Some s \<Rightarrow> makeTime h m s 0)))
      else if length t = 12 \<and> t ! 2 = CHR '':'' \<and> t ! 5 = CHR '':'' \<and> t ! 8 = CHR ''.'' then
        (case digits 2 (take 2 t) of
           None \<Rightarrow> None
         | Some h \<Rightarrow>
            (case digits 2 (take 2 (drop 3 t)) of
               None \<Rightarrow> None
             | Some m \<Rightarrow>
                (case digits 2 (take 2 (drop 6 t)) of
                   None \<Rightarrow> None
                 | Some s \<Rightarrow>
                    (case digits 3 (drop 9 t) of
                       None \<Rightarrow> None
                     | Some ms \<Rightarrow> makeTime h m s ms))))
      else None)"

text \<open>The UTC offset: \<^verbatim>\<open>Z\<close> or \<^verbatim>\<open>+HH:mm\<close> or \<^verbatim>\<open>-HH:mm\<close>, in minutes.\<close>

definition parseOffset :: "string \<Rightarrow> int option" where
  "parseOffset z =
     (if z = ''Z'' then Some 0
      else if length z = 6 \<and> (z ! 0 = CHR ''+'' \<or> z ! 0 = CHR ''-'') \<and> z ! 3 = CHR '':'' then
        (case digits 2 (take 2 (drop 1 z)) of
           None \<Rightarrow> None
         | Some h \<Rightarrow>
            (case digits 2 (drop 4 z) of
               None \<Rightarrow> None
             | Some m \<Rightarrow>
                 if h < 24 \<and> m < 60
                 then Some ((if z ! 0 = CHR ''-'' then - 1 else 1) * (60 * h + m))
                 else None))
      else None)"

definition isOffsetStart :: "char \<Rightarrow> bool" where
  "isOffsetStart c = (c = CHR ''Z'' \<or> c = CHR ''+'' \<or> c = CHR ''-'')"

text \<open>
  \<^verbatim>\<open>new Date(string)\<close>: a date-only form is UTC; a date-time form with no offset is
  local time, \<open>tz\<close> minutes east of UTC.
\<close>

definition Date_parse :: "int \<Rightarrow> string \<Rightarrow> int option" where
  "Date_parse tz s =
     (let d = takeWhile (\<lambda>c. c \<noteq> CHR ''T'') s;
          r = dropWhile (\<lambda>c. c \<noteq> CHR ''T'') s
      in case parseDatePart d of
           None \<Rightarrow> None
         | Some day \<Rightarrow>
             if r = [] then TimeClip (day * msPerDay)
             else
               (let tm = takeWhile (\<lambda>c. \<not> isOffsetStart c) (tl r);
                    z = dropWhile (\<lambda>c. \<not> isOffsetStart c) (tl r)
                in case parseTimePart tm of
                     None \<Rightarrow> None
                   | Some ms \<Rightarrow>
                       if z = [] then TimeClip (day * msPerDay + ms - tz * msPerMinute)
                       else
                         (case parseOffset z of
                            None \<Rightarrow> None
                          | Some off \<Rightarrow> TimeClip (day * msPerDay + ms - off * msPerMinute))))"

fun pad :: "nat \<Rightarrow> int \<Rightarrow> string" where
  "pad 0 n = []"
| "pad (Suc k) n = pad k (n div 10) @ [char_of (48 + n mod 10)]"

definition yearString :: "int \<Rightarrow> string" where
  "yearString y =
     (if 0 \<le> y \<and> y \<le> 9999 then pad 4 y
      else (if y < 0 then ''-'' else ''+'') @ pad 6 \<bar>y\<bar>)"

text \<open>
  \<^verbatim>\<open>date.toISOString()\<close>: the UTC timestamp \<^verbatim>\<open>YYYY-MM-DDTHH:mm:ss.sssZ\<close> of a valid
  time value; it throws a RangeError on an Invalid Date.
\<close>

definition toISO :: "int \<Rightarrow> string" where
  "toISO t =
     (case civilFromDays (t div msPerDay) of
        (y, m, d) \<Rightarrow>
          (let ms = t mod msPerDay
           in yearString y @ ''-'' @ pad 2 m @ ''-'' @ pad 2 d @ ''T''
              @ pad 2 (ms div 3600000) @ '':'' @ pad 2 (ms div 60000 mod 60) @ '':''
              @ pad 2 (ms div 1000 mod 60) @ ''.'' @ pad 3 (ms mod 1000) @ ''Z''))"

definition toISOString :: "int option \<Rightarrow> exn + string" where
  "toISOString tv = (case tv of None \<Rightarrow> Inl RangeError | Some t \<Rightarrow> Inr (toISO t))"

text \<open>\<^verbatim>\<open>str.split("T")[0]\<close>\<close>

definition split_T_0 :: "string \<Rightarrow> string" where
  "split_T_0 s = takeWhile (\<lambda>c. c \<noteq> CHR ''T'') s"

text \<open>\<^verbatim>\<open>new Date(s).toISOString().split("T")[0]\<close>, the UTC calendar day of a date string.\<close>

definition isoDay :: "int \<Rightarrow> string \<Rightarrow> exn + string" where
  "isoDay tz s =
     (case toISOString (Date_parse tz s) of Inl e \<Rightarrow> Inl e | Inr str \<Rightarrow> Inr (split_T_0 str))"

text \<open>\<^verbatim>\<open>date.setHours(0, 0, 0, 0)\<close>: midnight of the local day the time value falls on.\<close>

definition setHours0 :: "int \<Rightarrow> int option \<Rightarrow> int option" where
  "setHours0 tz tv =
     (case tv of
        None \<Rightarrow> None
      | Some t \<Rightarrow> TimeClip ((t + tz * msPerMinute) div msPerDay * msPerDay - tz * msPerMinute))"

text \<open>\<^verbatim>\<open>date.getDay()\<close>: the local day of the week, 0 for Sunday; \<open>None\<close> is NaN.\<close>

definition weekDay :: "int \<Rightarrow> int" where
  "weekDay day = (day + 4) mod 7"

definition getDay :: "int \<Rightarrow> int option \<Rightarrow> int option" where
  "getDay tz tv =
     (case tv of
        None \<Rightarrow> None
      | Some t \<Rightarrow> Some (weekDay ((t + tz * msPerMinute) div msPerDay)))"

section \<open>The data model\<close>

text \<open>
  A schedule item and a schedule, as the hook reads them off the server's JSON. Every
  property may be absent (\<open>None\<close> is \<^verbatim>\<open>undefined\<close>); \<open>others\<close> holds the
  properties of an item that the hook never reads (title, description and so on).
\<close>

record item =
  item_id :: "string option"
  category :: "string option"
  priority :: "string option"
  startTime :: "string option"
  endTime :: "string option"
  completed :: "bool option"
  others :: "(string \<times> string) list"

record schedule =
  sched_id :: "string option"
  date :: "string option"
  dayType :: "string option"
  status :: "string option"
  items :: "item list option"

text \<open>The empty object \<^verbatim>\<open>{}\<close> that \<^verbatim>\<open>response.data || {}\<close> falls back to.\<close>

definition emptySchedule :: schedule where
  "emptySchedule = \<lparr>sched_id = None, date = None, dayType = None, status = None, items = None\<rparr>"

record stats =
  todayItems :: nat
  completionRate :: rat
  totalHours :: number
  highPriorityTasks :: nat
  weeklyTrend :: nat
  completionTrend :: nat
  hoursChange :: nat
  priorityChange :: nat
  totalTasks :: nat
  currentStreak :: nat
  topCategory :: string
  categoryCount :: nat

definition defaultStats :: stats where
  "defaultStats =
     \<lparr>todayItems = 0, completionRate = 0, totalHours = Num 0, highPriorityTasks = 0,
      weeklyTrend = 0, completionTrend = 0, hoursChange = 0, priorityChange = 0,
      totalTasks = 0, currentStreak = 0, topCategory = [], categoryCount = 0\<rparr>"

text \<open>The host: its time zone offset (minutes east of UTC) and its clock (\<^verbatim>\<open>new Date()\<close>).\<close>

record host =
  tzOffset :: int
  now :: int

text \<open>JavaScript truthiness of an optional string: absent and empty are falsy.\<close>

definition truthy :: "string option \<Rightarrow> bool" where
  "truthy v = (case v of None \<Rightarrow> False | Some s \<Rightarrow> s \<noteq> [])"

section \<open>calculateStats\<close>

text \<open>\<^verbatim>\<open>s.items ? s.items.length : 0\<close>\<close>

definition itemCount :: "schedule \<Rightarrow> nat" where
  "itemCount s = (case items s of None \<Rightarrow> 0 | Some its \<Rightarrow> length its)"

text \<open>\<^verbatim>\<open>s.items ? s.items.filter((item) => item.completed).length : 0\<close>\<close>

definition completedCount :: "schedule \<Rightarrow> nat" where
  "completedCount s =
     (case items s of
        None \<Rightarrow> 0
      | Some its \<Rightarrow> length (filter (\<lambda>it. completed it = Some True) its))"

text \<open>\<^verbatim>\<open>s.items ? s.items.filter((item) => item.priority === "High").length : 0\<close>\<close>

definition highCount :: "schedule \<Rightarrow> nat" where
  "highCount s =
     (case items s of
        None \<Rightarrow> 0
      | Some its \<Rightarrow> length (filter (\<lambda>it. priority it = Some ''High'') its))"

text \<open>
  The filter for today's schedules:
  \<^verbatim>\<open>s.date && new Date(s.date).toISOString().split("T")[0] === today\<close>.
  A date that is present but does not parse makes \<^verbatim>\<open>toISOString\<close> throw.
\<close>

fun todayFilter :: "int \<Rightarrow> string \<Rightarrow> schedule list \<Rightarrow> exn + schedule list" where
  "todayFilter tz today [] = Inr []"
| "todayFilter tz today (s # ss) =
     (if \<not> truthy (date s) then todayFilter tz today ss
      else
        (case isoDay tz (the (date s)) of
           Inl e \<Rightarrow> Inl e
         | Inr day \<Rightarrow>
             (case todayFilter tz today ss of
                Inl e \<Rightarrow> Inl e
              | Inr r \<Rightarrow> Inr (if day = today then s # r else r))))"

text \<open>\<^verbatim>\<open>(end - start) / (1000 * 60 * 60)\<close> on two Date objects.\<close>

definition hoursBetween :: "int option \<Rightarrow> int option \<Rightarrow> number" where
  "hoursBetween start end =
     (case start of
        None \<Rightarrow> NaN
      | Some s \<Rightarrow> (case end of None \<Rightarrow> NaN | Some e \<Rightarrow> Num (of_int (e - s) / of_int msPerHour)))"

text \<open>The inner reducer of the total hours, over the items of one schedule.\<close>

definition addItemHours :: "int \<Rightarrow> number \<Rightarrow> item \<Rightarrow> number" where
  "addItemHours tz itemAcc it =
     (if \<not> truthy (startTime it) \<or> \<not> truthy (endTime it) then itemAcc
      else
        plus_number itemAcc
          (hoursBetween (Date_parse tz (''2000-01-01T'' @ the (startTime it)))
                        (Date_parse tz (''2000-01-01T'' @ the (endTime it)))))"

text \<open>The outer reducer of the total hours, over the schedules.\<close>

definition addScheduleHours :: "int \<Rightarrow> number \<Rightarrow> schedule \<Rightarrow> number" where
  "addScheduleHours tz acc s =
     (case items s of
        None \<Rightarrow> acc
      | Some its \<Rightarrow> plus_number acc (foldl (addItemHours tz) (Num 0) its))"

text \<open>
  The category distribution is a plain object used as a dictionary: its own keys in
  insertion order, each with a count. \<open>bump\<close> is
  \<^verbatim>\<open>categories[k] = (categories[k] || 0) + 1\<close>. Labels that name a property of
  \<^verbatim>\<open>Object.prototype\<close> (such as \<^verbatim>\<open>constructor\<close>) are outside the model.
\<close>

fun bump :: "string \<Rightarrow> (string \<times> nat) list \<Rightarrow> (string \<times> nat) list" where
  "bump k [] = [(k, 1)]"
| "bump k ((k', n) # kvs) = (if k = k' then (k', n + 1) # kvs else (k', n) # bump k kvs)"

definition countItem :: "(string \<times> nat) list \<Rightarrow> item \<Rightarrow> (string \<times> nat) list" where
  "countItem cats it = (if \<not> truthy (category it) then cats else bump (the (category it)) cats)"

definition countSchedule :: "(string \<times> nat) list \<Rightarrow> schedule \<Rightarrow> (string \<times> nat) list" where
  "countSchedule cats s = (case items s of None \<Rightarrow> cats | Some its \<Rightarrow> foldl countItem cats its)"

text \<open>
  \<^verbatim>\<open>Object.entries\<close> lists the keys that are array indices first, in ascending numeric
  order, then the other keys in insertion order.
\<close>

definition arrayIndex :: "string \<Rightarrow> int option" where
  "arrayIndex k =
     (case number_of 0 k of
        None \<Rightarrow> None
      | Some n \<Rightarrow>
          if k \<noteq> [] \<and> (k = ''0'' \<or> hd k \<noteq> CHR ''0'') \<and> n < 4294967295 then Some n else None)"

definition Object_entries :: "(string \<times> nat) list \<Rightarrow> (string \<times> nat) list" where
  "Object_entries kvs =
     sort_key (\<lambda>kv. case arrayIndex (fst kv) of None \<Rightarrow> 0 | Some i \<Rightarrow> i)
       (filter (\<lambda>kv. arrayIndex (fst kv) \<noteq> None) kvs)
     @ filter (\<lambda>kv. arrayIndex (fst kv) = None) kvs"

text \<open>
  \<^verbatim>\<open>Object.entries(categories).sort((a, b) => b[1] - a[1])[0]?.[0] || ""\<close>: the sort is
  stable, so among equal counts the first entry stays first.
\<close>

definition topCategoryOf :: "(string \<times> nat) list \<Rightarrow> string" where
  "topCategoryOf cats =
     (case sort_key (\<lambda>kv. - int (snd kv)) (Object_entries cats) of
        [] \<Rightarrow> []
      | kv # _ \<Rightarrow> fst kv)"

text \<open>
  \<open>calculateStats\<close> returns what the hook passes to \<^verbatim>\<open>setStats\<close>, or the error it
  throws. The argument is always an array here, so \<^verbatim>\<open>!Array.isArray(scheduleData)\<close>
  is false.
\<close>

definition calculateStats :: "host \<Rightarrow> schedule list \<Rightarrow> exn + stats" where
  "calculateStats h scheduleData =
     (if scheduleData = [] then Inr defaultStats
      else
        (let today = split_T_0 (toISO (now h)) in
         case todayFilter (tzOffset h) today scheduleData of
           Inl e \<Rightarrow> Inl e
         | Inr todaySchedules \<Rightarrow>
             (let todayItems = foldl (\<lambda>acc s. acc + itemCount s) 0 todaySchedules;
                  totalItems = foldl (\<lambda>acc s. acc + itemCount s) 0 scheduleData;
                  completedItems = foldl (\<lambda>acc s. acc + completedCount s) 0 scheduleData;
                  completionRate =
                    (if totalItems > 0 then of_nat completedItems / of_nat totalItems * 100 else 0);
                  totalHours = foldl (addScheduleHours (tzOffset h)) (Num 0) scheduleData;
                  highPriorityTasks = foldl (\<lambda>acc s. acc + highCount s) 0 scheduleData;
                  categories = foldl countSchedule [] scheduleData;
                  topCategory = topCategoryOf categories
              in Inr \<lparr>todayItems = todayItems, completionRate = completionRate,
                      totalHours = totalHours, highPriorityTasks = highPriorityTasks,
                      weeklyTrend = 0, completionTrend = 0, hoursChange = 0,
                      priorityChange = 0, totalTasks = totalItems, currentStreak = 0,
                      topCategory = topCategory, categoryCount = length categories\<rparr>)))"

section \<open>The store and the backend\<close>

text \<open>
  The hook's state. An operation of the hook is a function of the state it starts in
  and of the backend's answers to the requests it makes; it returns what the call
  returns or throws, the state it leaves, and the requests it made, in order. Within one
  call the variable \<^verbatim>\<open>schedules\<close> is the cache as it was when the call began, while
  \<^verbatim>\<open>setSchedules((prev) => ...)\<close> works on the latest cache. Calls do not overlap.
  Toasts and console output are not part of the state.
\<close>

datatype jval =
    JUndefined | JNull | JBool bool | JNum int | JStr string
  | JArr "jval list" | JObj "(string \<times> jval) list"

record store =
  schedules :: "schedule list"
  loading :: bool
  error :: "string option"
  stats :: stats
  categories :: "jval list"
  isFetchingCategories :: bool

datatype body = ScheduleBody schedule | ItemBody item

datatype request =
    Get string "(string \<times> string) list"   \<comment> \<open>URL and query parameters\<close>
  | Post string body
  | Put string body
  | Delete string

text \<open>The backend's answer to one request: the promise rejects, or resolves with a value.\<close>

datatype 'a reply = Fails "string option" | Replies 'a

type_synonym 'r outcome = "(exn + 'r) \<times> store \<times> request list"

text \<open>\<^verbatim>\<open>response.data || {}\<close>\<close>

definition dataOrEmpty :: "schedule option \<Rightarrow> schedule" where
  "dataOrEmpty d = (case d of None \<Rightarrow> emptySchedule | Some s \<Rightarrow> s)"

text \<open>An identifier inside a template string: \<^verbatim>\<open>undefined\<close> prints as its name.\<close>

definition idString :: "string option \<Rightarrow> string" where
  "idString i = (case i of None \<Rightarrow> ''undefined'' | Some s \<Rightarrow> s)"

text \<open>\<^verbatim>\<open>err.message\<close>; the wording of a RangeError or TypeError is the engine's.\<close>

definition messageOf :: "exn \<Rightarrow> string option" where
  "messageOf e =
     (case e of
        Error m \<Rightarrow> Some m
      | Rejected m \<Rightarrow> m
      | RangeError \<Rightarrow> Some ''Invalid time value''
      | TypeError \<Rightarrow> Some ''Cannot read properties of undefined'')"

section \<open>fetchSchedules\<close>

definition queryParams :: "string option \<Rightarrow> string option \<Rightarrow> string option \<Rightarrow> (string \<times> string) list" where
  "queryParams startDate endDate status' =
     (if truthy startDate then [(''startDate'', the startDate)] else [])
     @ (if truthy endDate then [(''endDate'', the endDate)] else [])
     @ (if truthy status' then [(''status'', the status')] else [])"

text \<open>The \<^verbatim>\<open>catch\<close> block of \<open>fetchSchedules\<close>: it records the error and resets the cache.\<close>

definition fetchFailed :: "store \<Rightarrow> exn \<Rightarrow> store" where
  "fetchFailed st e =
     st\<lparr>error := Some (if truthy (messageOf e) then the (messageOf e) else ''Failed to fetch schedules''),
        schedules := [], stats := defaultStats, loading := False\<rparr>"

definition fetchSchedules ::
  "host \<Rightarrow> bool \<Rightarrow> store \<Rightarrow> string option \<Rightarrow> string option \<Rightarrow> string option
     \<Rightarrow> schedule list option reply \<Rightarrow> schedule list option outcome" where
  "fetchSchedules h isAuthenticated st startDate endDate status' r =
     (if \<not> isAuthenticated then (Inr None, st, [])
      else
        (let st1 = st\<lparr>loading := True, error := None\<rparr>;
             req = Get ''/schedules'' (queryParams startDate endDate status')
         in case r of
              Fails m \<Rightarrow> (Inr None, fetchFailed st1 (Rejected m), [req])
            | Replies d \<Rightarrow>
                (let fetchedSchedules = (case d of None \<Rightarrow> [] | Some l \<Rightarrow> l);
                     st2 = st1\<lparr>schedules := fetchedSchedules\<rparr>
                 in case calculateStats h fetchedSchedules of
                      Inl e \<Rightarrow> (Inr None, fetchFailed st2 e, [req])
                    | Inr v \<Rightarrow>
                        (Inr (Some fetchedSchedules), st2\<lparr>stats := v, loading := False\<rparr>, [req]))))"

section \<open>createSchedule, updateSchedule, deleteSchedule\<close>

definition createSchedule ::
  "host \<Rightarrow> bool \<Rightarrow> store \<Rightarrow> schedule \<Rightarrow> schedule option reply \<Rightarrow> schedule option outcome" where
  "createSchedule h isAuthenticated st scheduleData r =
     (if \<not> isAuthenticated then (Inr None, st, [])
      else if \<not> truthy (date scheduleData) then (Inl (Error ''Date is required''), st, [])
      else if items scheduleData = None \<or> items scheduleData = Some []
      then (Inl (Error ''At least one schedule item is required''), st, [])
      else
        (case toISOString (Date_parse (tzOffset h) (the (date scheduleData))) of
           Inl e \<Rightarrow> (Inl e, st, [])
         | Inr str \<Rightarrow>
             (let formattedData = scheduleData\<lparr>date := Some str\<rparr>;
                  req = Post ''/schedules'' (ScheduleBody formattedData)
              in case r of
                   Fails m \<Rightarrow> (Inl (Rejected m), st, [req])
                 | Replies d \<Rightarrow>
                     (let newSchedule = dataOrEmpty d;
                          st1 = st\<lparr>schedules := schedules st @ [newSchedule]\<rparr>
                      in case calculateStats h (schedules st @ [newSchedule]) of
                           Inl e \<Rightarrow> (Inl e, st1, [req])
                         | Inr v \<Rightarrow> (Inr (Some newSchedule), st1\<lparr>stats := v\<rparr>, [req])))))"

text \<open>
  \<^verbatim>\<open>prev.map((schedule) => schedule._id === id ? updatedSchedule : schedule)\<close>, and the
  steps that follow every request answered with one updated schedule: patch the cache,
  recompute the statistics from the patched copy of \<^verbatim>\<open>schedules\<close>, return the schedule.
\<close>

definition replaceSchedule :: "string option \<Rightarrow> schedule \<Rightarrow> schedule list \<Rightarrow> schedule list" where
  "replaceSchedule i updatedSchedule scheds =
     map (\<lambda>s. if sched_id s = i then updatedSchedule else s) scheds"

definition patchWith ::
  "host \<Rightarrow> store \<Rightarrow> string option \<Rightarrow> schedule \<Rightarrow> request list \<Rightarrow> schedule option outcome" where
  "patchWith h st i updatedSchedule reqs =
     (let st1 = st\<lparr>schedules := replaceSchedule i updatedSchedule (schedules st)\<rparr>
      in case calculateStats h (replaceSchedule i updatedSchedule (schedules st)) of
           Inl e \<Rightarrow> (Inl e, st1, reqs)
         | Inr v \<Rightarrow> (Inr (Some updatedSchedule), st1\<lparr>stats := v\<rparr>, reqs))"

definition updateSchedule ::
  "host \<Rightarrow> bool \<Rightarrow> store \<Rightarrow> string option \<Rightarrow> schedule \<Rightarrow> schedule option reply
     \<Rightarrow> schedule option outcome" where
  "updateSchedule h isAuthenticated st i updates r =
     (if \<not> isAuthenticated then (Inr None, st, [])
      else if \<not> truthy i then (Inl (Error ''Schedule ID is required''), st, [])
      else
        (case (if truthy (date updates)
               then (case toISOString (Date_parse (tzOffset h) (the (date updates))) of
                       Inl e \<Rightarrow> Inl e
                     | Inr str \<Rightarrow> Inr (updates\<lparr>date := Some str\<rparr>))
               else Inr updates) of
           Inl e \<Rightarrow> (Inl e, st, [])
         | Inr updates' \<Rightarrow>
             (let req = Put (''/schedules/'' @ idString i) (ScheduleBody updates')
              in case r of
                   Fails m \<Rightarrow> (Inl (Rejected m), st, [req])
                 | Replies d \<Rightarrow> patchWith h st i (dataOrEmpty d) [req])))"

definition deleteSchedule ::
  "host \<Rightarrow> bool \<Rightarrow> store \<Rightarrow> string option \<Rightarrow> unit reply \<Rightarrow> schedule option outcome" where
  "deleteSchedule h isAuthenticated st i r =
     (if \<not> isAuthenticated then (Inr None, st, [])
      else if \<not> truthy i then (Inl (Error ''Schedule ID is required''), st, [])
      else
        (let req = Delete (''/schedules/'' @ idString i)
         in case r of
              Fails m \<Rightarrow> (Inl (Rejected m), st, [req])
            | Replies _ \<Rightarrow>
                (let updatedSchedules = filter (\<lambda>s. sched_id s \<noteq> i) (schedules st);
                     st1 = st\<lparr>schedules := updatedSchedules\<rparr>
                 in case calculateStats h updatedSchedules of
                      Inl e \<Rightarrow> (Inl e, st1, [req])
                    | Inr v \<Rightarrow> (Inr None, st1\<lparr>stats := v\<rparr>, [req]))))"

section \<open>The item operations\<close>

definition addScheduleItem ::
  "host \<Rightarrow> bool \<Rightarrow> store \<Rightarrow> string option \<Rightarrow> item \<Rightarrow> schedule option reply
     \<Rightarrow> schedule option outcome" where
  "addScheduleItem h isAuthenticated st scheduleId itemData r =
     (if \<not> isAuthenticated then (Inr None, st, [])
      else if \<not> truthy scheduleId then (Inl (Error ''Schedule ID is required''), st, [])
      else
        (let req = Post (''/schedules/'' @ idString scheduleId @ ''/items'') (ItemBody itemData)
         in case r of
              Fails m \<Rightarrow> (Inl (Rejected m), st, [req])
            | Replies d \<Rightarrow> patchWith h st scheduleId (dataOrEmpty d) [req]))"

definition updateScheduleItem ::
  "host \<Rightarrow> bool \<Rightarrow> store \<Rightarrow> string option \<Rightarrow> string option \<Rightarrow> item \<Rightarrow> schedule option reply
     \<Rightarrow> schedule option outcome" where
  "updateScheduleItem h isAuthenticated st scheduleId itemId updates r =
     (if \<not> isAuthenticated then (Inr None, st, [])
      else if \<not> truthy scheduleId \<or> \<not> truthy itemId
      then (Inl (Error ''Schedule ID and Item ID are required''), st, [])
      else
        (let req = Put (''/schedules/'' @ idString scheduleId @ ''/items/'' @ idString itemId)
                       (ItemBody updates)
         in case r of
              Fails m \<Rightarrow> (Inl (Rejected m), st, [req])
            | Replies d \<Rightarrow> patchWith h st scheduleId (dataOrEmpty d) [req]))"

definition deleteScheduleItem ::
  "host \<Rightarrow> bool \<Rightarrow> store \<Rightarrow> string option \<Rightarrow> string option \<Rightarrow> schedule option reply
     \<Rightarrow> schedule option outcome" where
  "deleteScheduleItem h isAuthenticated st scheduleId itemId r =
     (if \<not> isAuthenticated then (Inr None, st, [])
      else if \<not> truthy scheduleId \<or> \<not> truthy itemId
      then (Inl (Error ''Schedule ID and Item ID are required''), st, [])
      else
        (let req = Delete (''/schedules/'' @ idString scheduleId @ ''/items/'' @ idString itemId)
         in case r of
              Fails m \<Rightarrow> (Inl (Rejected m), st, [req])
            | Replies d \<Rightarrow> patchWith h st scheduleId (dataOrEmpty d) [req]))"

section \<open>copyScheduleItem and copySchedule\<close>

text \<open>
  \<^verbatim>\<open>schedules.find((s) => new Date(s.date).toISOString().split("T")[0] === targetDate)\<close>.
  Unlike the filter of \<open>calculateStats\<close> it does not guard against a missing date, so
  a schedule without a date that parses makes it throw.
\<close>

fun findByDay :: "int \<Rightarrow> string \<Rightarrow> schedule list \<Rightarrow> exn + schedule option" where
  "findByDay tz targetDate [] = Inr None"
| "findByDay tz targetDate (s # ss) =
     (case date s of
        None \<Rightarrow> Inl RangeError
      | Some d \<Rightarrow>
          (case isoDay tz d of
             Inl e \<Rightarrow> Inl e
           | Inr day \<Rightarrow> if day = targetDate then Inr (Some s) else findByDay tz targetDate ss))"

text \<open>
  \<^verbatim>\<open>const formattedDate = new Date(targetDate); formattedDate.setHours(0, 0, 0, 0);\<close>
\<close>

definition formattedDateOf :: "int \<Rightarrow> string \<Rightarrow> int option" where
  "formattedDateOf tz targetDate = setHours0 tz (Date_parse tz targetDate)"

text \<open>
  \<^verbatim>\<open>formattedDate.getDay() % 6 === 0 ? "Weekend" : "Weekday"\<close>; the remainder of NaN is
  NaN, which is not 0.
\<close>

definition dayTypeOf :: "int \<Rightarrow> int option \<Rightarrow> string" where
  "dayTypeOf tz formattedDate =
     (case getDay tz formattedDate of
        None \<Rightarrow> ''Weekday''
      | Some d \<Rightarrow> if d mod 6 = 0 then ''Weekend'' else ''Weekday'')"

text \<open>
  The second half of \<open>copyScheduleItem\<close>, once the target schedule is known: \<open>st\<close> is
  the state the call began in (its \<open>schedules\<close> is what \<^verbatim>\<open>calculateStats([...schedules])\<close>
  reads), \<open>cur\<close> the current state. The answer to the item request is used as it is
  (\<^verbatim>\<open>updatedSchedule.data\<close>), so it is taken to carry a schedule.
\<close>

definition copyItemInto ::
  "host \<Rightarrow> store \<Rightarrow> store \<Rightarrow> schedule \<Rightarrow> item \<Rightarrow> request list \<Rightarrow> schedule reply
     \<Rightarrow> schedule option outcome" where
  "copyItemInto h st cur targetSchedule it reqs r =
     (let itemCopy = it\<lparr>item_id := None\<rparr>;
          req = Post (''/schedules/'' @ idString (sched_id targetSchedule) @ ''/items'')
                     (ItemBody itemCopy)
      in case r of
           Fails m \<Rightarrow> (Inl (Rejected m), cur\<lparr>loading := False\<rparr>, reqs @ [req])
         | Replies updatedSchedule \<Rightarrow>
             (let cur1 = cur\<lparr>schedules :=
                           replaceSchedule (sched_id targetSchedule) updatedSchedule (schedules cur)\<rparr>
              in case calculateStats h (schedules st) of
                   Inl e \<Rightarrow> (Inl e, cur1\<lparr>loading := False\<rparr>, reqs @ [req])
                 | Inr v \<Rightarrow>
                     (Inr (Some updatedSchedule), cur1\<lparr>stats := v, loading := False\<rparr>,
                      reqs @ [req])))"

definition copyScheduleItem ::
  "host \<Rightarrow> bool \<Rightarrow> store \<Rightarrow> item \<Rightarrow> string \<Rightarrow> schedule option reply \<Rightarrow> schedule reply
     \<Rightarrow> schedule option outcome" where
  "copyScheduleItem h isAuthenticated st it targetDate r1 r2 =
     (if \<not> isAuthenticated then (Inr None, st, [])
      else
        (let st0 = st\<lparr>loading := True\<rparr>;
             formattedDate = formattedDateOf (tzOffset h) targetDate
         in case findByDay (tzOffset h) targetDate (schedules st) of
              Inl e \<Rightarrow> (Inl e, st0\<lparr>loading := False\<rparr>, [])
            | Inr (Some targetSchedule) \<Rightarrow> copyItemInto h st st0 targetSchedule it [] r2
            | Inr None \<Rightarrow>
                (let dayType' = dayTypeOf (tzOffset h) formattedDate
                 in case toISOString formattedDate of
                      Inl e \<Rightarrow> (Inl e, st0\<lparr>loading := False\<rparr>, [])
                    | Inr str \<Rightarrow>
                        (let newScheduleData =
                               \<lparr>sched_id = None, date = Some str, dayType = Some dayType',
                                status = Some ''Planned'', items = Some []\<rparr>;
                             req = Post ''/schedules'' (ScheduleBody newScheduleData)
                         in case r1 of
                              Fails m \<Rightarrow> (Inl (Rejected m), st0\<lparr>loading := False\<rparr>, [req])
                            | Replies d \<Rightarrow>
                                (let targetSchedule = dataOrEmpty d;
                                     st1 = st0\<lparr>schedules := schedules st0 @ [targetSchedule]\<rparr>
                                 in copyItemInto h st st1 targetSchedule it [req] r2)))))"

text \<open>
  The copy of one source item: \<^verbatim>\<open>const { _id, ...itemWithoutId } = item;
  return { ...itemWithoutId, completed: false };\<close>
\<close>

definition resetItem :: "item \<Rightarrow> item" where
  "resetItem it = it\<lparr>item_id := None, completed := Some False\<rparr>"

text \<open>
  The second half of \<open>copySchedule\<close>, after the schedule found on the target date (if
  any, \<open>existing\<close>) has been deleted. The object literal reads the date first, so an
  Invalid Date throws before a source without items does.
\<close>

definition copyScheduleCreate ::
  "host \<Rightarrow> store \<Rightarrow> store \<Rightarrow> schedule option \<Rightarrow> schedule \<Rightarrow> int option \<Rightarrow> request list
     \<Rightarrow> schedule option reply \<Rightarrow> schedule option outcome" where
  "copyScheduleCreate h st cur existing sourceSchedule formattedDate reqs r =
     (case toISOString formattedDate of
        Inl e \<Rightarrow> (Inl e, cur\<lparr>loading := False\<rparr>, reqs)
      | Inr str \<Rightarrow>
          (case items sourceSchedule of
             None \<Rightarrow> (Inl TypeError, cur\<lparr>loading := False\<rparr>, reqs)
           | Some its \<Rightarrow>
               (let newScheduleData =
                      \<lparr>sched_id = None, date = Some str,
                       dayType = Some (dayTypeOf (tzOffset h) formattedDate),
                       status = Some ''Planned'', items = Some (map resetItem its)\<rparr>;
                    req = Post ''/schedules'' (ScheduleBody newScheduleData)
                in case r of
                     Fails m \<Rightarrow> (Inl (Rejected m), cur\<lparr>loading := False\<rparr>, reqs @ [req])
                   | Replies d \<Rightarrow>
                       (let newSchedule = dataOrEmpty d;
                            cur1 = cur\<lparr>schedules := schedules cur @ [newSchedule]\<rparr>;
                            existingId = (case existing of None \<Rightarrow> None | Some ex \<Rightarrow> sched_id ex)
                        in case calculateStats h
                                  (filter (\<lambda>s. sched_id s \<noteq> existingId) (schedules st)
                                   @ [newSchedule]) of
                             Inl e \<Rightarrow> (Inl e, cur1\<lparr>loading := False\<rparr>, reqs @ [req])
                           | Inr v \<Rightarrow>
                               (Inr (Some newSchedule), cur1\<lparr>stats := v, loading := False\<rparr>,
                                reqs @ [req])))))"

definition copySchedule ::
  "host \<Rightarrow> bool \<Rightarrow> store \<Rightarrow> schedule \<Rightarrow> string \<Rightarrow> unit reply \<Rightarrow> schedule option reply
     \<Rightarrow> schedule option outcome" where
  "copySchedule h isAuthenticated st sourceSchedule targetDate r1 r2 =
     (if \<not> isAuthenticated then (Inr None, st, [])
      else
        (let st0 = st\<lparr>loading := True\<rparr>;
             formattedDate = formattedDateOf (tzOffset h) targetDate
         in case findByDay (tzOffset h) targetDate (schedules st) of
              Inl e \<Rightarrow> (Inl e, st0\<lparr>loading := False\<rparr>, [])
            | Inr None \<Rightarrow> copyScheduleCreate h st st0 None sourceSchedule formattedDate [] r2
            | Inr (Some existingSchedule) \<Rightarrow>
                (let req = Delete (''/schedules/'' @ idString (sched_id existingSchedule))
                 in case r1 of
                      Fails m \<Rightarrow> (Inl (Rejected m), st0\<lparr>loading := False\<rparr>, [req])
                    | Replies _ \<Rightarrow>
                        (let st1 = st0\<lparr>schedules :=
                                     filter (\<lambda>s. sched_id s \<noteq> sched_id existingSchedule)
                                       (schedules st0)\<rparr>
                         in copyScheduleCreate h st st1 (Some existingSchedule) sourceSchedule
                              formattedDate [req] r2))))"

section \<open>fetchCategories\<close>










section \<open>The skill form: handleChange\<close>

text \<open>
  The form record of \<^verbatim>\<open>AddSkillModal\<close>. Three of its fields carry a suffix, since the
  schedule model owns the plain names. \<open>extra\<close> holds any property that an input with
  another name would add through \<^verbatim>\<open>[name]: value\<close>.
\<close>

record formData =
  name :: string
  categoryF :: string
  statusF :: string
  progress :: int
  description :: string
  priorityF :: string
  extra :: "(string \<times> string) list"

text \<open>
  \<^verbatim>\<open>parseInt(value)\<close> with no radix: leading white space is skipped (here the ASCII
  white space), a sign is read, a \<^verbatim>\<open>0x\<close> prefix selects base 16, and the longest run of
  digits is the number; \<open>None\<close> is NaN, the result when there is no digit.
\<close>

definition isWhiteSpace :: "char \<Rightarrow> bool" where
  "isWhiteSpace c = (of_char c \<in> {9, 10, 11, 12, 13, 32 :: int})"

definition hexDigit_of :: "char \<Rightarrow> int option" where
  "hexDigit_of c =
     (let n = (of_char c :: int)
      in if 48 \<le> n \<and> n \<le> 57 then Some (n - 48)
         else if 65 \<le> n \<and> n \<le> 70 then Some (n - 55)
         else if 97 \<le> n \<and> n \<le> 102 then Some (n - 87)
         else None)"

text \<open>The value, in the given base, of the longest prefix of digits; \<open>None\<close> if it is empty.\<close>

fun digitRun :: "(char \<Rightarrow> int option) \<Rightarrow> int \<Rightarrow> int option \<Rightarrow> string \<Rightarrow> int option" where
  "digitRun dig base acc [] = acc"
| "digitRun dig base acc (c # cs) =
     (case dig c of
        None \<Rightarrow> acc
      | Some d \<Rightarrow> digitRun dig base (Some (base * (case acc of None \<Rightarrow> 0 | Some a \<Rightarrow> a) + d)) cs)"

definition parseInt :: "string \<Rightarrow> int option" where
  "parseInt s =
     (let t = dropWhile isWhiteSpace s;
          sign = (if t \<noteq> [] \<and> hd t = CHR ''-'' then - 1 else 1);
          u = (if t \<noteq> [] \<and> (hd t = CHR ''-'' \<or> hd t = CHR ''+'') then tl t else t);
          hex = (take 2 u = ''0x'' \<or> take 2 u = ''0X'')
      in map_option (\<lambda>n. sign * n)
           (if hex then digitRun hexDigit_of 16 None (drop 2 u) else digitRun digit_of 10 None u))"

text \<open>\<^verbatim>\<open>Math.min(100, Math.max(0, parseInt(value) || 0))\<close>: NaN and 0 are falsy.\<close>

definition clampProgress :: "string \<Rightarrow> int" where
  "clampProgress v = min 100 (max 0 (case parseInt v of None \<Rightarrow> 0 | Some n \<Rightarrow> if n = 0 then 0 else n))"

text \<open>\<^verbatim>\<open>{ ...formData, [name]: value }\<close> for a name other than \<^verbatim>\<open>progress\<close>.\<close>

fun assign :: "string \<Rightarrow> string \<Rightarrow> (string \<times> string) list \<Rightarrow> (string \<times> string) list" where
  "assign k v [] = [(k, v)]"
| "assign k v ((k', v') # kvs) = (if k = k' then (k, v) # kvs else (k', v') # assign k v kvs)"

definition setField :: "string \<Rightarrow> string \<Rightarrow> formData \<Rightarrow> formData" where
  "setField n v fd =
     (if n = ''name'' then fd\<lparr>name := v\<rparr>
      else if n = ''category'' then fd\<lparr>categoryF := v\<rparr>
      else if n = ''status'' then fd\<lparr>statusF := v\<rparr>
      else if n = ''description'' then fd\<lparr>description := v\<rparr>
      else if n = ''priority'' then fd\<lparr>priorityF := v\<rparr>
      else fd\<lparr>extra := assign n v (extra fd)\<rparr>)"

text \<open>
  \<open>handleChange\<close>, from the form state of the current render to the state after the
  event: the first \<^verbatim>\<open>setFormData\<close> replaces the state, the second, functional one works
  on that replacement.
\<close>

definition handleChange :: "formData \<Rightarrow> string \<Rightarrow> string \<Rightarrow> formData" where
  "handleChange fd n v =
     (let fd1 = (if n = ''progress'' then fd\<lparr>progress := clampProgress v\<rparr> else setField n v fd)
      in if n = ''status'' \<and> v = ''completed'' then fd1\<lparr>progress := 100\<rparr> else fd1)"

section \<open>Reference notions the claims are stated with\<close>

text \<open>All items of a collection, in order; a schedule without an item list has none.\<close>

definition itemsOf :: "schedule \<Rightarrow> item list" where
  "itemsOf s = (case items s of None \<Rightarrow> [] | Some its \<Rightarrow> its)"

definition allItems :: "schedule list \<Rightarrow> item list" where
  "allItems scheds = concat (map itemsOf scheds)"

text \<open>Every date that is present parses, so \<^verbatim>\<open>toISOString\<close> does not throw on it.\<close>

definition dateValid :: "int \<Rightarrow> schedule \<Rightarrow> bool" where
  "dateValid tz s = (if truthy (date s) then Date_parse tz (the (date s)) \<noteq> None else True)"

definition datesValid :: "int \<Rightarrow> schedule list \<Rightarrow> bool" where
  "datesValid tz scheds = list_all (dateValid tz) scheds"







text \<open>A schedule whose date falls on the given UTC calendar day, as \<open>findByDay\<close> tests it.\<close>

definition onDay :: "int \<Rightarrow> string \<Rightarrow> schedule \<Rightarrow> bool" where
  "onDay tz targetDate s = (case date s of None \<Rightarrow> False | Some d \<Rightarrow> isoDay tz d = Inr targetDate)"




section \<open>Example data\<close>

text \<open>
  A host in India (UTC+05:30) and one in New York (UTC-04:00 in May), both at
  2024-05-06T00:00:05.000Z, and a Monday schedule with three items: one complete and
  timed, one without an end time or a category, and one that ends before it starts.
\<close>

definition host_india :: host where
  "host_india = \<lparr>tzOffset = 330, now = 1714953605000\<rparr>"

definition host_new_york :: host where
  "host_new_york = \<lparr>tzOffset = - 240, now = 1714953605000\<rparr>"

definition item_dsa :: item where
  "item_dsa =
     \<lparr>item_id = Some ''i1'', category = Some ''DSA'', priority = Some ''High'',
      startTime = Some ''09:00'', endTime = Some ''10:30'', completed = Some True,
      others = [(''title'', ''Graphs'')]\<rparr>"

definition item_open :: item where
  "item_open =
     \<lparr>item_id = Some ''i2'', category = None, priority = Some ''Low'',
      startTime = Some ''11:00'', endTime = None, completed = None,
      others = [(''title'', ''Reading'')]\<rparr>"

definition item_night :: item where
  "item_night =
     \<lparr>item_id = Some ''i3'', category = Some ''Learning'', priority = Some ''Medium'',
      startTime = Some ''23:00'', endTime = Some ''01:00'', completed = Some False,
      others = []\<rparr>"

definition monday :: schedule where
  "monday =
     \<lparr>sched_id = Some ''s1'', date = Some ''2024-05-06T00:00:00.000Z'',
      dayType = Some ''Weekday'', status = Some ''Planned'',
      items = Some [item_dsa, item_open, item_night]\<rparr>"



text \<open>
  An empty store, a store that holds the Monday schedule, and two inputs to
  \<open>createSchedule\<close>: a Tuesday plan, and the same plan with a date that is no date.
\<close>

definition store_empty :: store where
  "store_empty =
     \<lparr>schedules = [], loading = False, error = None, stats = defaultStats,
      categories = [], isFetchingCategories = False\<rparr>"

definition store_monday :: store where
  "store_monday = store_empty\<lparr>schedules := [monday]\<rparr>"

definition draft_tuesday :: schedule where
  "draft_tuesday =
     \<lparr>sched_id = None, date = Some ''2024-05-07'', dayType = Some ''Weekday'',
      status = Some ''Planned'', items = Some [item_dsa]\<rparr>"


text \<open>
  A Friday schedule to copy from, a store that holds it and the Monday schedule, and
  what a backend that stores what it is sent would answer to a host in New York that
  copies to Monday 2024-05-06.
\<close>

definition friday :: schedule where
  "friday =
     \<lparr>sched_id = Some ''s0'', date = Some ''2024-05-03T00:00:00.000Z'',
      dayType = Some ''Weekday'', status = Some ''Completed'',
      items = Some [item_dsa, item_night]\<rparr>"

definition store_week :: store where
  "store_week = store_empty\<lparr>schedules := [friday, monday]\<rparr>"

definition new_york_created :: schedule where
  "new_york_created =
     \<lparr>sched_id = Some ''s9'', date = Some ''2024-05-05T04:00:00.000Z'',
      dayType = Some ''Weekend'', status = Some ''Planned'', items = Some []\<rparr>"

definition new_york_filled :: schedule where
  "new_york_filled = new_york_created\<lparr>items := Some [item_dsa\<lparr>item_id := Some ''i9''\<rparr>]\<rparr>"

definition new_york_copy :: schedule where
  "new_york_copy =
     new_york_created\<lparr>items := Some [(resetItem item_dsa)\<lparr>item_id := Some ''i8''\<rparr>,
                                      (resetItem item_night)\<lparr>item_id := Some ''i9''\<rparr>]\<rparr>"

text \<open>
  What a backend that stores what it is sent would answer when \<open>item_dsa\<close> is copied to
  2024-05-07 from India: the schedule it creates for the date the hook sends, and that
  schedule after the copy has been added to it.
\<close>

definition tuesday_created :: schedule where
  "tuesday_created =
     \<lparr>sched_id = Some ''s9'', date = Some ''2024-05-06T18:30:00.000Z'',
      dayType = Some ''Weekday'', status = Some ''Planned'', items = Some []\<rparr>"

definition tuesday_filled :: schedule where
  "tuesday_filled = tuesday_created\<lparr>items := Some [item_dsa\<lparr>item_id := Some ''i9''\<rparr>]\<rparr>"


text \<open>A skill form, half done.\<close>

definition form_half :: formData where
  "form_half = \<lparr>name = ''Graphs'', categoryF = ''DSA'', statusF = ''in-progress'', progress = 50,
      description = [], priorityF = ''medium'', extra = []\<rparr>"

section \<open>Properties of the built-ins\<close>















lemma isoDay_valid: "Date_parse tz d = Some t \<Longrightarrow> isoDay tz d = Inr (split_T_0 (toISO t))"
  by (simp add: isoDay_def toISOString_def)

lemma isoDay_invalid: "Date_parse tz d = None \<Longrightarrow> isoDay tz d = Inl RangeError"
  by (simp add: isoDay_def toISOString_def)

lemma isoDay_cases: "isoDay tz d = Inl e \<Longrightarrow> e = RangeError \<and> Date_parse tz d = None"
  by (cases "Date_parse tz d") (auto simp: isoDay_def toISOString_def)

section \<open>Properties of calculateStats\<close>




lemma sum_highCount:
  "sum_list (map highCount xs) = length (filter (\<lambda>it. priority it = Some ''High'') (allItems xs))"
  by (induction xs) (auto simp: highCount_def allItems_def itemsOf_def split: option.splits)

lemma todayFilter_eq:
  "todayFilter tz today xs =
     (if datesValid tz xs
      then Inr (filter (\<lambda>s. truthy (date s) \<and> isoDay tz (the (date s)) = Inr today) xs)
      else Inl RangeError)"
proof (induction xs)
  case Nil
  then show ?case by (simp add: datesValid_def)
next
  case (Cons s ss)
  show ?case
  proof (cases "truthy (date s)")
    case False
    then show ?thesis using Cons.IH by (simp add: datesValid_def dateValid_def)
  next
    case True
    show ?thesis
    proof (cases "Date_parse tz (the (date s))")
      case None
      then show ?thesis using True
        by (simp add: datesValid_def dateValid_def isoDay_invalid)
    next
      case (Some t)
      then show ?thesis using True Cons.IH
        by (simp add: datesValid_def dateValid_def isoDay_valid)
    qed
  qed
qed

lemma calculateStats_returns_iff:
  "(\<exists>st. calculateStats h scheds = Inr st) \<longleftrightarrow> (scheds = [] \<or> datesValid (tzOffset h) scheds)"
  by (simp add: calculateStats_def Let_def todayFilter_eq)

lemma calculateStats_throws:
  "calculateStats h scheds = Inl e \<longleftrightarrow> (e = RangeError \<and> scheds \<noteq> [] \<and> \<not> datesValid (tzOffset h) scheds)"
  by (auto simp add: calculateStats_def Let_def todayFilter_eq)









text \<open>
  A time that is present but is no clock time parses to an Invalid Date, and the total
  becomes NaN.
\<close>

lemma totalHours_not_a_number:
  "calculateStats host_india
     [monday\<lparr>items := Some [item_dsa\<lparr>startTime := Some ''soon''\<rparr>]\<rparr>]
   = Inr \<lparr>todayItems = 1, completionRate = 100, totalHours = NaN, highPriorityTasks = 1,
          weeklyTrend = 0, completionTrend = 0, hoursChange = 0, priorityChange = 0,
          totalTasks = 1, currentStreak = 0, topCategory = ''DSA'', categoryCount = 1\<rparr>"
  by code_simp





section \<open>Totality of calculateStats and the category distribution\<close>







lemma datesValid_filter: "datesValid tz xs \<Longrightarrow> datesValid tz (filter P xs)"
  by (induction xs) (auto simp: datesValid_def)


















section \<open>Properties of createSchedule\<close>








section \<open>Properties of the store operations\<close>

lemma patchWith_fail:
  "patchWith h st i u reqs = (Inl e, st', reqs') \<Longrightarrow> calculateStats h (schedules st') = Inl e"
  by (auto simp: patchWith_def Let_def split: sum.splits)

lemma patchWith_ok:
  "patchWith h st i u reqs = (Inr x, st', reqs') \<Longrightarrow> calculateStats h (schedules st') = Inr (stats st')"
  by (auto simp: patchWith_def Let_def split: sum.splits)

lemma createSchedule_fail:
  "createSchedule h a st d r = (Inl e, st', reqs) \<Longrightarrow>
     schedules st' = schedules st \<or> calculateStats h (schedules st') = Inl e"
  by (auto simp: createSchedule_def Let_def split: if_splits sum.splits reply.splits)

lemma updateSchedule_fail:
  "updateSchedule h a st i u r = (Inl e, st', reqs) \<Longrightarrow>
     schedules st' = schedules st \<or> calculateStats h (schedules st') = Inl e"
  by (auto simp: updateSchedule_def Let_def split: if_splits sum.splits reply.splits dest: patchWith_fail)

lemma deleteSchedule_fail:
  "deleteSchedule h a st i r = (Inl e, st', reqs) \<Longrightarrow>
     schedules st' = schedules st \<or> calculateStats h (schedules st') = Inl e"
  by (auto simp: deleteSchedule_def Let_def split: if_splits sum.splits reply.splits)

lemma addScheduleItem_fail:
  "addScheduleItem h a st i d r = (Inl e, st', reqs) \<Longrightarrow>
     schedules st' = schedules st \<or> calculateStats h (schedules st') = Inl e"
  by (auto simp: addScheduleItem_def Let_def split: if_splits reply.splits dest: patchWith_fail)

lemma updateScheduleItem_fail:
  "updateScheduleItem h a st i j u r = (Inl e, st', reqs) \<Longrightarrow>
     schedules st' = schedules st \<or> calculateStats h (schedules st') = Inl e"
  by (auto simp: updateScheduleItem_def Let_def split: if_splits reply.splits dest: patchWith_fail)

lemma deleteScheduleItem_fail:
  "deleteScheduleItem h a st i j r = (Inl e, st', reqs) \<Longrightarrow>
     schedules st' = schedules st \<or> calculateStats h (schedules st') = Inl e"
  by (auto simp: deleteScheduleItem_def Let_def split: if_splits reply.splits dest: patchWith_fail)

lemma createSchedule_ok:
  "createSchedule h True st d r = (Inr x, st', reqs) \<Longrightarrow>
     calculateStats h (schedules st') = Inr (stats st')"
  by (auto simp: createSchedule_def Let_def split: if_splits sum.splits reply.splits)

lemma updateSchedule_ok:
  "updateSchedule h True st i u r = (Inr x, st', reqs) \<Longrightarrow>
     calculateStats h (schedules st') = Inr (stats st')"
  by (auto simp: updateSchedule_def Let_def split: if_splits sum.splits reply.splits dest: patchWith_ok)

lemma deleteSchedule_ok:
  "deleteSchedule h True st i r = (Inr x, st', reqs) \<Longrightarrow>
     calculateStats h (schedules st') = Inr (stats st')"
  by (auto simp: deleteSchedule_def Let_def split: if_splits sum.splits reply.splits)

lemma addScheduleItem_ok:
  "addScheduleItem h True st i d r = (Inr x, st', reqs) \<Longrightarrow>
     calculateStats h (schedules st') = Inr (stats st')"
  by (auto simp: addScheduleItem_def Let_def split: if_splits reply.splits dest: patchWith_ok)

lemma updateScheduleItem_ok:
  "updateScheduleItem h True st i j u r = (Inr x, st', reqs) \<Longrightarrow>
     calculateStats h (schedules st') = Inr (stats st')"
  by (auto simp: updateScheduleItem_def Let_def split: if_splits reply.splits dest: patchWith_ok)

lemma deleteScheduleItem_ok:
  "deleteScheduleItem h True st i j r = (Inr x, st', reqs) \<Longrightarrow>
     calculateStats h (schedules st') = Inr (stats st')"
  by (auto simp: deleteScheduleItem_def Let_def split: if_splits reply.splits dest: patchWith_ok)

lemma fetchSchedules_ok:
  "fetchSchedules h True st a b c r = (Inr (Some x), st', reqs) \<Longrightarrow>
     schedules st' = x \<and> calculateStats h (schedules st') = Inr (stats st')"
  by (auto simp: fetchSchedules_def Let_def split: if_splits sum.splits reply.splits)

lemma copyItemInto_fail:
  "copyItemInto h st cur t it reqs r = (Inl e, st', reqs') \<Longrightarrow>
     schedules st' = schedules cur \<or> calculateStats h (schedules st) = Inl e"
  by (auto simp: copyItemInto_def Let_def split: sum.splits reply.splits)

lemma copyItemInto_ok:
  "copyItemInto h st cur t it reqs r = (Inr x, st', reqs') \<Longrightarrow>
     calculateStats h (schedules st) = Inr (stats st')"
  by (auto simp: copyItemInto_def Let_def split: sum.splits reply.splits)

lemma copyScheduleItem_fail:
  "copyScheduleItem h a st it targetDate r1 r2 = (Inl e, st', reqs) \<Longrightarrow>
     schedules st' = schedules st
     \<or> (\<exists>d. r1 = Replies d \<and> schedules st' = schedules st @ [dataOrEmpty d])
     \<or> calculateStats h (schedules st) = Inl e"
  by (auto simp: copyScheduleItem_def Let_def split: if_splits sum.splits option.splits reply.splits
        dest!: copyItemInto_fail)

lemma copyScheduleItem_ok:
  "copyScheduleItem h True st it targetDate r1 r2 = (Inr x, st', reqs) \<Longrightarrow>
     calculateStats h (schedules st) = Inr (stats st')"
  by (auto simp: copyScheduleItem_def Let_def split: if_splits sum.splits option.splits reply.splits
        dest!: copyItemInto_ok)

lemma datesValid_append: "datesValid tz (xs @ ys) = (datesValid tz xs \<and> datesValid tz ys)"
  by (simp add: datesValid_def)

lemma calculateStats_throws_more:
  "calculateStats h (filter P xs @ [n]) = Inl e \<Longrightarrow> calculateStats h (xs @ [n]) = Inl e"
  by (auto simp: calculateStats_throws datesValid_append dest: datesValid_filter)

lemma copyScheduleCreate_fail:
  "copyScheduleCreate h st cur ex src fd reqs r = (Inl e, st', reqs') \<Longrightarrow>
     schedules st' = schedules cur
     \<or> (\<exists>d. schedules st' = schedules cur @ [dataOrEmpty d]
            \<and> calculateStats h
                 (filter (\<lambda>s. sched_id s \<noteq> (case ex of None \<Rightarrow> None | Some x \<Rightarrow> sched_id x)) (schedules st)
                  @ [dataOrEmpty d]) = Inl e)"
  by (auto simp: copyScheduleCreate_def Let_def split: sum.splits option.splits reply.splits)

lemma copySchedule_fail:
  "copySchedule h a st src targetDate r1 r2 = (Inl e, st', reqs) \<Longrightarrow>
     schedules st' = schedules st
     \<or> (\<exists>ex. findByDay (tzOffset h) targetDate (schedules st) = Inr (Some ex)
             \<and> schedules st' = filter (\<lambda>s. sched_id s \<noteq> sched_id ex) (schedules st))
     \<or> calculateStats h (schedules st') = Inl e"
  by (auto simp: copySchedule_def Let_def split: if_splits sum.splits option.splits reply.splits
        dest!: copyScheduleCreate_fail dest: calculateStats_throws_more)

text \<open>
  C6 (as amended). When a mutation throws, the cache is what it was before the call, with
  these exceptions: \<open>copyScheduleItem\<close> may have appended the schedule it created for
  the target date (the creation is not rolled back when adding the item fails);
  \<open>copySchedule\<close> may have removed the schedule it found on the target date (the
  deletion is not rolled back); and nothing is said of an error thrown by the
  recomputation of the statistics, which runs after the cache has been updated.
\<close>

theorem failed_mutation_cache:
  "(createSchedule h a st d r = (Inl e, st', reqs) \<longrightarrow>
      schedules st' = schedules st \<or> calculateStats h (schedules st') = Inl e) \<and>
   (updateSchedule h a st i d r = (Inl e, st', reqs) \<longrightarrow>
      schedules st' = schedules st \<or> calculateStats h (schedules st') = Inl e) \<and>
   (deleteSchedule h a st i r0 = (Inl e, st', reqs) \<longrightarrow>
      schedules st' = schedules st \<or> calculateStats h (schedules st') = Inl e) \<and>
   (addScheduleItem h a st i it r = (Inl e, st', reqs) \<longrightarrow>
      schedules st' = schedules st \<or> calculateStats h (schedules st') = Inl e) \<and>
   (updateScheduleItem h a st i j it r = (Inl e, st', reqs) \<longrightarrow>
      schedules st' = schedules st \<or> calculateStats h (schedules st') = Inl e) \<and>
   (deleteScheduleItem h a st i j r = (Inl e, st', reqs) \<longrightarrow>
      schedules st' = schedules st \<or> calculateStats h (schedules st') = Inl e) \<and>
   (copyScheduleItem h a st it targetDate r r2 = (Inl e, st', reqs) \<longrightarrow>
      schedules st' = schedules st
      \<or> (\<exists>x. r = Replies x \<and> schedules st' = schedules st @ [dataOrEmpty x])
      \<or> calculateStats h (schedules st) = Inl e) \<and>
   (copySchedule h a st d targetDate r0 r = (Inl e, st', reqs) \<longrightarrow>
      schedules st' = schedules st
      \<or> (\<exists>ex. findByDay (tzOffset h) targetDate (schedules st) = Inr (Some ex)
              \<and> schedules st' = filter (\<lambda>s. sched_id s \<noteq> sched_id ex) (schedules st))
      \<or> calculateStats h (schedules st') = Inl e)"
  using createSchedule_fail [of h a st d r e st' reqs]
    updateSchedule_fail [of h a st i d r e st' reqs]
    deleteSchedule_fail [of h a st i r0 e st' reqs]
    addScheduleItem_fail [of h a st i it r e st' reqs]
    updateScheduleItem_fail [of h a st i j it r e st' reqs]
    deleteScheduleItem_fail [of h a st i j r e st' reqs]
    copyScheduleItem_fail [of h a st it targetDate r r2 e st' reqs]
    copySchedule_fail [of h a st d targetDate r0 r e st' reqs]
  by blast

theorem failed_mutation_cache_witness:
  "createSchedule host_india True store_monday draft_tuesday (Fails (Some ''Network Error''))
     = (Inl (Rejected (Some ''Network Error'')), store_monday,
        [Post ''/schedules''
           (ScheduleBody (draft_tuesday\<lparr>date := Some ''2024-05-07T00:00:00.000Z''\<rparr>))]) \<and>
   copyScheduleItem host_india True store_monday item_dsa ''2024-05-07''
       (Replies (Some tuesday_created)) (Fails None)
     = (Inl (Rejected None), store_monday\<lparr>schedules := [monday, tuesday_created]\<rparr>,
        [Post ''/schedules'' (ScheduleBody (tuesday_created\<lparr>sched_id := None\<rparr>)),
         Post ''/schedules/s9/items'' (ItemBody (item_dsa\<lparr>item_id := None\<rparr>))]) \<and>
   (schedules (store_monday\<lparr>schedules := [monday, tuesday_created]\<rparr>)
      = schedules store_monday @ [dataOrEmpty (Some tuesday_created)]) \<and>
   (\<exists>v. calculateStats host_india (schedules store_monday) = Inr v) \<and>
   copySchedule host_india True store_monday monday ''2024-05-06'' (Replies ()) (Fails None)
     = (Inl (Rejected None), store_monday\<lparr>schedules := []\<rparr>,
        [Delete ''/schedules/s1'',
         Post ''/schedules''
           (ScheduleBody
              \<lparr>sched_id = None, date = Some ''2024-05-05T18:30:00.000Z'',
               dayType = Some ''Weekday'', status = Some ''Planned'',
               items = Some (map resetItem [item_dsa, item_open, item_night])\<rparr>)]) \<and>
   findByDay (tzOffset host_india) ''2024-05-06'' (schedules store_monday) = Inr (Some monday) \<and>
   schedules (store_monday\<lparr>schedules := []\<rparr>)
     = filter (\<lambda>s. sched_id s \<noteq> sched_id monday) (schedules store_monday)"
proof -
  have 1: "createSchedule host_india True store_monday draft_tuesday (Fails (Some ''Network Error''))
     = (Inl (Rejected (Some ''Network Error'')), store_monday,
        [Post ''/schedules''
           (ScheduleBody (draft_tuesday\<lparr>date := Some ''2024-05-07T00:00:00.000Z''\<rparr>))])"
    by code_simp
  have 2: "copyScheduleItem host_india True store_monday item_dsa ''2024-05-07''
       (Replies (Some tuesday_created)) (Fails None)
     = (Inl (Rejected None), store_monday\<lparr>schedules := [monday, tuesday_created]\<rparr>,
        [Post ''/schedules'' (ScheduleBody (tuesday_created\<lparr>sched_id := None\<rparr>)),
         Post ''/schedules/s9/items'' (ItemBody (item_dsa\<lparr>item_id := None\<rparr>))])"
    by code_simp
  have 3: "copySchedule host_india True store_monday monday ''2024-05-06'' (Replies ()) (Fails None)
     = (Inl (Rejected None), store_monday\<lparr>schedules := []\<rparr>,
        [Delete ''/schedules/s1'',
         Post ''/schedules''
           (ScheduleBody
              \<lparr>sched_id = None, date = Some ''2024-05-05T18:30:00.000Z'',
               dayType = Some ''Weekday'', status = Some ''Planned'',
               items = Some (map resetItem [item_dsa, item_open, item_night])\<rparr>)])"
    by code_simp
  have 4: "\<exists>v. calculateStats host_india (schedules store_monday) = Inr v"
    unfolding calculateStats_returns_iff by code_simp
  have 5: "findByDay (tzOffset host_india) ''2024-05-06'' (schedules store_monday) = Inr (Some monday)"
    by code_simp
  have 6: "schedules (store_monday\<lparr>schedules := [monday, tuesday_created]\<rparr>)
      = schedules store_monday @ [dataOrEmpty (Some tuesday_created)]"
    by (simp add: store_monday_def dataOrEmpty_def)
  have 7: "schedules (store_monday\<lparr>schedules := []\<rparr>)
     = filter (\<lambda>s. sched_id s \<noteq> sched_id monday) (schedules store_monday)"
    by (simp add: store_monday_def)
  note all = failed_mutation_cache
    [of host_india True store_monday draft_tuesday "Fails (Some ''Network Error'')"
        "Rejected (Some ''Network Error'')" store_monday
        "[Post ''/schedules''
           (ScheduleBody (draft_tuesday\<lparr>date := Some ''2024-05-07T00:00:00.000Z''\<rparr>))]"]
  from all 1 have "schedules store_monday = schedules store_monday
      \<or> calculateStats host_india (schedules store_monday) = Inl (Rejected (Some ''Network Error''))"
    by blast
  with 1 2 3 4 5 6 7 show ?thesis by blast
qed

text \<open>
  C6 as it stands names the deletion in \<open>copySchedule\<close> as the only exception among the
  mutations. Here \<open>copyScheduleItem\<close> fails at its second request and leaves the cache
  one schedule longer.
\<close>

theorem copyScheduleItem_failure_changes_cache:
  "copyScheduleItem host_india True store_empty item_dsa ''2024-05-07''
       (Replies (Some tuesday_created)) (Fails (Some ''Network Error''))
     = (Inl (Rejected (Some ''Network Error'')), store_empty\<lparr>schedules := [tuesday_created]\<rparr>,
        [Post ''/schedules'' (ScheduleBody (tuesday_created\<lparr>sched_id := None\<rparr>)),
         Post ''/schedules/s9/items'' (ItemBody (item_dsa\<lparr>item_id := None\<rparr>))]) \<and>
   schedules (store_empty\<lparr>schedules := [tuesday_created]\<rparr>) \<noteq> schedules store_empty"
proof -
  have "copyScheduleItem host_india True store_empty item_dsa ''2024-05-07''
       (Replies (Some tuesday_created)) (Fails (Some ''Network Error''))
     = (Inl (Rejected (Some ''Network Error'')), store_empty\<lparr>schedules := [tuesday_created]\<rparr>,
        [Post ''/schedules'' (ScheduleBody (tuesday_created\<lparr>sched_id := None\<rparr>)),
         Post ''/schedules/s9/items'' (ItemBody (item_dsa\<lparr>item_id := None\<rparr>))])"
    by code_simp
  then show ?thesis by (simp add: store_empty_def)
qed

text \<open>
  C5 does not hold for \<open>copyScheduleItem\<close>. The six operations above and
  \<open>fetchSchedules\<close> leave the statistics of the cache they leave (the lemmas ending in
  \<open>_ok\<close>), but \<open>copyScheduleItem\<close> recomputes from \<^verbatim>\<open>[...schedules]\<close>, the cache as it was
  when the call began (\<open>copyScheduleItem_ok\<close>). Copying an item into an empty cache
  leaves one schedule with one item in the cache and the statistics of no schedule at
  all.
\<close>

theorem copyScheduleItem_stale_stats:
  "copyScheduleItem host_india True store_empty item_dsa ''2024-05-07''
       (Replies (Some tuesday_created)) (Replies tuesday_filled)
     = (Inr (Some tuesday_filled), store_empty\<lparr>schedules := [tuesday_filled]\<rparr>,
        [Post ''/schedules'' (ScheduleBody (tuesday_created\<lparr>sched_id := None\<rparr>)),
         Post ''/schedules/s9/items'' (ItemBody (item_dsa\<lparr>item_id := None\<rparr>))]) \<and>
   stats (store_empty\<lparr>schedules := [tuesday_filled]\<rparr>) = defaultStats \<and>
   calculateStats host_india (schedules (store_empty\<lparr>schedules := [tuesday_filled]\<rparr>))
     = Inr \<lparr>todayItems = 1, completionRate = 100, totalHours = Num (3 / 2),
            highPriorityTasks = 1, weeklyTrend = 0, completionTrend = 0, hoursChange = 0,
            priorityChange = 0, totalTasks = 1, currentStreak = 0, topCategory = ''DSA'',
            categoryCount = 1\<rparr> \<and>
   totalTasks defaultStats = 0"
proof -
  have 1: "copyScheduleItem host_india True store_empty item_dsa ''2024-05-07''
       (Replies (Some tuesday_created)) (Replies tuesday_filled)
     = (Inr (Some tuesday_filled), store_empty\<lparr>schedules := [tuesday_filled]\<rparr>,
        [Post ''/schedules'' (ScheduleBody (tuesday_created\<lparr>sched_id := None\<rparr>)),
         Post ''/schedules/s9/items'' (ItemBody (item_dsa\<lparr>item_id := None\<rparr>))])"
    by code_simp
  have 2: "calculateStats host_india [tuesday_filled]
     = Inr \<lparr>todayItems = 1, completionRate = 100, totalHours = Num (3 / 2),
            highPriorityTasks = 1, weeklyTrend = 0, completionTrend = 0, hoursChange = 0,
            priorityChange = 0, totalTasks = 1, currentStreak = 0, topCategory = ''DSA'',
            categoryCount = 1\<rparr>"
    by code_simp
  show ?thesis using 1 2 by (simp add: store_empty_def defaultStats_def)
qed

section \<open>The day type and the requests of the copy operations\<close>

text \<open>
  Where the target date is a date-only string, \<open>t\<close> is UTC midnight of the target date
  and \<open>t div msPerDay\<close> its day number. East of Greenwich the local day that holds that
  instant is the target date; west of Greenwich it is the day before, and the day type
  follows that day.
\<close>

lemma formattedDate_local_midnight:
  assumes "Date_parse tz targetDate = Some t" and "formattedDateOf tz targetDate \<noteq> None"
  shows "formattedDateOf tz targetDate
           = Some ((t + tz * msPerMinute) div msPerDay * msPerDay - tz * msPerMinute)"
    and "getDay tz (formattedDateOf tz targetDate)
           = Some (weekDay ((t + tz * msPerMinute) div msPerDay))"
proof -
  show f: "formattedDateOf tz targetDate
           = Some ((t + tz * msPerMinute) div msPerDay * msPerDay - tz * msPerMinute)"
    using assms by (auto simp: formattedDateOf_def setHours0_def TimeClip_def split: if_splits)
  have "((t + tz * msPerMinute) div msPerDay * msPerDay - tz * msPerMinute + tz * msPerMinute)
          div msPerDay = (t + tz * msPerMinute) div msPerDay"
    by (simp add: msPerDay_def)
  then show "getDay tz (formattedDateOf tz targetDate)
           = Some (weekDay ((t + tz * msPerMinute) div msPerDay))"
    unfolding f by (simp add: getDay_def)
qed

lemma local_day_east:
  assumes "t mod msPerDay = 0" and "0 \<le> tz" and "tz < 1440"
  shows "(t + tz * msPerMinute) div msPerDay = t div msPerDay"
proof -
  from assms(1) obtain q where t: "t = msPerDay * q" by (auto simp: msPerDay_def)
  have "(msPerDay * q + tz * msPerMinute) div msPerDay = q + (tz * msPerMinute) div msPerDay"
    by (simp add: msPerDay_def)
  moreover have "(tz * msPerMinute) div msPerDay = 0"
    using assms(2,3) by (simp add: msPerDay_def msPerMinute_def)
  ultimately show ?thesis unfolding t by (simp add: msPerDay_def)
qed

lemma local_day_west:
  assumes "t mod msPerDay = 0" and "- 1440 \<le> tz" and "tz < 0"
  shows "(t + tz * msPerMinute) div msPerDay = t div msPerDay - 1"
proof -
  from assms(1) obtain q where t: "t = msPerDay * q" by (auto simp: msPerDay_def)
  have "(msPerDay * q + tz * msPerMinute) div msPerDay = q + (tz * msPerMinute) div msPerDay"
    by (simp add: msPerDay_def)
  moreover have "(tz * msPerMinute) div msPerDay = - 1"
    using assms(2,3) by (simp add: msPerDay_def msPerMinute_def)
  ultimately show ?thesis unfolding t by (simp add: msPerDay_def)
qed

lemma dayType_east:
  assumes "Date_parse tz targetDate = Some t" and "t mod msPerDay = 0"
    and "formattedDateOf tz targetDate \<noteq> None" and "0 \<le> tz" and "tz < 1440"
  shows "dayTypeOf tz (formattedDateOf tz targetDate)
           = (if weekDay (t div msPerDay) mod 6 = 0 then ''Weekend'' else ''Weekday'')"
  unfolding dayTypeOf_def formattedDate_local_midnight(2) [OF assms(1,3)]
    local_day_east [OF assms(2,4,5)]
  by simp

lemma dayType_west:
  assumes "Date_parse tz targetDate = Some t" and "t mod msPerDay = 0"
    and "formattedDateOf tz targetDate \<noteq> None" and "- 1440 \<le> tz" and "tz < 0"
  shows "dayTypeOf tz (formattedDateOf tz targetDate)
           = (if weekDay (t div msPerDay - 1) mod 6 = 0 then ''Weekend'' else ''Weekday'')"
  unfolding dayTypeOf_def formattedDate_local_midnight(2) [OF assms(1,3)]
    local_day_west [OF assms(2,4,5)]
  by simp

lemma findByDay_Some:
  "findByDay tz targetDate xs = Inr (Some ex) \<Longrightarrow> ex \<in> set xs \<and> onDay tz targetDate ex"
  by (induction xs) (auto simp: onDay_def split: option.splits sum.splits if_splits)

lemma findByDay_None:
  "findByDay tz targetDate xs = Inr None \<Longrightarrow> filter (onDay tz targetDate) xs = []"
  by (induction xs) (auto simp: onDay_def split: option.splits sum.splits if_splits)

lemma resetItem_items:
  "length (map resetItem its) = length its \<and>
   list_all (\<lambda>it. completed it = Some False \<and> item_id it = None) (map resetItem its) \<and>
   map (\<lambda>it. (category it, priority it, startTime it, endTime it, others it)) (map resetItem its)
     = map (\<lambda>it. (category it, priority it, startTime it, endTime it, others it)) its"
  by (induction its) (simp_all add: resetItem_def)

lemma copySchedule_overwrite:
  assumes "findByDay (tzOffset h) targetDate (schedules st) = Inr (Some ex)"
    and "items src = Some its"
    and "toISOString (formattedDateOf (tzOffset h) targetDate) = Inr str"
  shows "snd (snd (copySchedule h True st src targetDate (Replies u) (Replies d)))
           = [Delete (''/schedules/'' @ idString (sched_id ex)),
              Post ''/schedules''
                (ScheduleBody
                   \<lparr>sched_id = None, date = Some str,
                    dayType = Some (dayTypeOf (tzOffset h) (formattedDateOf (tzOffset h) targetDate)),
                    status = Some ''Planned'', items = Some (map resetItem its)\<rparr>)]"
    and "schedules (fst (snd (copySchedule h True st src targetDate (Replies u) (Replies d))))
           = filter (\<lambda>s. sched_id s \<noteq> sched_id ex) (schedules st) @ [dataOrEmpty d]"
  using assms
  by (simp_all add: copySchedule_def copyScheduleCreate_def Let_def split: sum.splits)

lemma copySchedule_one_on_target:
  assumes "filter (onDay tz targetDate) cache = [ex]" and "onDay tz targetDate new"
  shows "filter (onDay tz targetDate) (filter (\<lambda>s. sched_id s \<noteq> sched_id ex) cache @ [new]) = [new]"
proof -
  have "filter (\<lambda>s. sched_id s \<noteq> sched_id ex) (filter (onDay tz targetDate) cache) = []"
    unfolding assms(1) by simp
  then have "filter (onDay tz targetDate) (filter (\<lambda>s. sched_id s \<noteq> sched_id ex) cache) = []"
    by (simp add: conj_commute)
  then show ?thesis using assms(2) by simp
qed

lemma copyScheduleItem_creates:
  assumes "findByDay (tzOffset h) targetDate (schedules st) = Inr None"
    and "toISOString (formattedDateOf (tzOffset h) targetDate) = Inr str"
  shows "snd (snd (copyScheduleItem h True st it targetDate (Replies d) (Replies u)))
           = [Post ''/schedules''
                (ScheduleBody
                   \<lparr>sched_id = None, date = Some str,
                    dayType = Some (dayTypeOf (tzOffset h) (formattedDateOf (tzOffset h) targetDate)),
                    status = Some ''Planned'', items = Some []\<rparr>),
              Post (''/schedules/'' @ idString (sched_id (dataOrEmpty d)) @ ''/items'')
                (ItemBody (it\<lparr>item_id := None\<rparr>))]"
    and "schedules (fst (snd (copyScheduleItem h True st it targetDate (Replies d) (Replies u))))
           = replaceSchedule (sched_id (dataOrEmpty d)) u (schedules st @ [dataOrEmpty d])"
  using assms
  by (simp_all add: copyScheduleItem_def copyItemInto_def Let_def split: sum.splits)

text \<open>
  C3 does not hold on a host west of Greenwich. In New York, copying the Friday schedule
  onto Monday 2024-05-06 (day number 19849, weekday 1) deletes the Monday schedule and
  posts a schedule with both items reset, status \<open>Planned\<close>, but day type \<open>Weekend\<close>:
  the day type of Sunday, the local day on which UTC midnight of the target date falls.
\<close>

theorem copySchedule_dayType_previous_day:
  "snd (snd (copySchedule host_new_york True store_week friday ''2024-05-06''
               (Replies ()) (Replies (Some new_york_copy))))
     = [Delete ''/schedules/s1'',
        Post ''/schedules''
          (ScheduleBody
             \<lparr>sched_id = None, date = Some ''2024-05-05T04:00:00.000Z'',
              dayType = Some ''Weekend'', status = Some ''Planned'',
              items = Some [resetItem item_dsa, resetItem item_night]\<rparr>)] \<and>
   schedules (fst (snd (copySchedule host_new_york True store_week friday ''2024-05-06''
                          (Replies ()) (Replies (Some new_york_copy)))))
     = [friday, new_york_copy] \<and>
   Date_parse (tzOffset host_new_york) ''2024-05-06'' = Some (19849 * msPerDay) \<and>
   civilFromDays 19849 = (2024, 5, 6) \<and> weekDay 19849 = 1"
proof -
  have "snd (snd (copySchedule host_new_york True store_week friday ''2024-05-06''
               (Replies ()) (Replies (Some new_york_copy))))
     = [Delete ''/schedules/s1'',
        Post ''/schedules''
          (ScheduleBody
             \<lparr>sched_id = None, date = Some ''2024-05-05T04:00:00.000Z'',
              dayType = Some ''Weekend'', status = Some ''Planned'',
              items = Some [resetItem item_dsa, resetItem item_night]\<rparr>)]"
    by code_simp
  moreover have "schedules (fst (snd (copySchedule host_new_york True store_week friday ''2024-05-06''
                          (Replies ()) (Replies (Some new_york_copy)))))
     = [friday, new_york_copy]"
    by code_simp
  moreover have "Date_parse (tzOffset host_new_york) ''2024-05-06'' = Some (19849 * msPerDay)"
    by code_simp
  moreover have "civilFromDays 19849 = (2024, 5, 6)" by code_simp
  moreover have "weekDay 19849 = 1" by code_simp
  ultimately show ?thesis by blast
qed

text \<open>
  C4 does not hold on a host west of Greenwich, for the same reason. In New York, copying
  an item to Monday 2024-05-06 when no schedule is cached for that day creates a schedule
  with day type \<open>Weekend\<close>, then posts the copy of the item without its identifier.
\<close>

theorem copyScheduleItem_dayType_previous_day:
  "snd (snd (copyScheduleItem host_new_york True store_empty item_dsa ''2024-05-06''
               (Replies (Some new_york_created)) (Replies new_york_filled)))
     = [Post ''/schedules''
          (ScheduleBody
             \<lparr>sched_id = None, date = Some ''2024-05-05T04:00:00.000Z'',
              dayType = Some ''Weekend'', status = Some ''Planned'', items = Some []\<rparr>),
        Post ''/schedules/s9/items'' (ItemBody (item_dsa\<lparr>item_id := None\<rparr>))] \<and>
   schedules (fst (snd (copyScheduleItem host_new_york True store_empty item_dsa ''2024-05-06''
                          (Replies (Some new_york_created)) (Replies new_york_filled))))
     = [new_york_filled] \<and>
   findByDay (tzOffset host_new_york) ''2024-05-06'' (schedules store_empty) = Inr None \<and>
   parseDatePart ''2024-05-06'' = Some 19849 \<and>
   civilFromDays 19849 = (2024, 5, 6) \<and> weekDay 19849 = 1"
proof -
  have "snd (snd (copyScheduleItem host_new_york True store_empty item_dsa ''2024-05-06''
               (Replies (Some new_york_created)) (Replies new_york_filled)))
     = [Post ''/schedules''
          (ScheduleBody
             \<lparr>sched_id = None, date = Some ''2024-05-05T04:00:00.000Z'',
              dayType = Some ''Weekend'', status = Some ''Planned'', items = Some []\<rparr>),
        Post ''/schedules/s9/items'' (ItemBody (item_dsa\<lparr>item_id := None\<rparr>))]"
    by code_simp
  moreover have "schedules (fst (snd (copyScheduleItem host_new_york True store_empty item_dsa
                          ''2024-05-06'' (Replies (Some new_york_created)) (Replies new_york_filled))))
     = [new_york_filled]"
    by code_simp
  moreover have "findByDay (tzOffset host_new_york) ''2024-05-06'' (schedules store_empty) = Inr None"
    by code_simp
  moreover have "parseDatePart ''2024-05-06'' = Some 19849" by code_simp
  moreover have "civilFromDays 19849 = (2024, 5, 6)" by code_simp
  moreover have "weekDay 19849 = 1" by code_simp
  ultimately show ?thesis by blast
qed

section \<open>Properties of fetchCategories\<close>














section \<open>Properties of the skill form\<close>

lemma digitRun_no_digit:
  "list_all (\<lambda>c. digit_of c = None) s \<Longrightarrow> digitRun digit_of 10 None s = None"
  by (cases s) auto

lemma parseInt_no_digit:
  assumes "list_all (\<lambda>c. digit_of c = None) v"
  shows "parseInt v = None"
proof -
  define t where "t = dropWhile isWhiteSpace v"
  define u where "u = (if t \<noteq> [] \<and> (hd t = CHR ''-'' \<or> hd t = CHR ''+'') then tl t else t)"
  have "set t \<subseteq> set v" unfolding t_def by (meson set_dropWhileD subsetI)
  moreover have "set u \<subseteq> set t" unfolding u_def by (auto dest: list.set_sel(2))
  ultimately have nd: "list_all (\<lambda>c. digit_of c = None) u"
    using assms by (auto simp: list_all_iff)
  have z: "digit_of (CHR ''0'') \<noteq> None" by (simp add: digit_of_def)
  have "take 2 u \<noteq> ''0x'' \<and> take 2 u \<noteq> ''0X''"
  proof (cases u)
    case Nil
    then show ?thesis by simp
  next
    case (Cons a as)
    with nd z have "a \<noteq> CHR ''0''" by auto
    then show ?thesis using Cons by (cases as) auto
  qed
  then show ?thesis
    using digitRun_no_digit [OF nd]
    unfolding parseInt_def Let_def t_def [symmetric] u_def [symmetric] by simp
qed

lemma clampProgress_range: "0 \<le> clampProgress v \<and> clampProgress v \<le> 100"
  by (simp add: clampProgress_def)

lemma clampProgress_NaN: "parseInt v = None \<Longrightarrow> clampProgress v = 0"
  by (simp add: clampProgress_def)

lemma clampProgress_num:
  "parseInt v = Some n \<Longrightarrow> clampProgress v = (if n < 0 then 0 else if 100 < n then 100 else n)"
  by (simp add: clampProgress_def)

lemma progress_handleChange_progress:
  "progress (handleChange fd ''progress'' v) = clampProgress v"
  by (simp add: handleChange_def)

text \<open>
  C9. Whatever the form held, a change of \<open>status\<close> to \<open>completed\<close> sets the progress
  to 100. A change of \<open>progress\<close> stores the parsed integer clamped into 0..100: 100
  for \<open>150\<close>, 0 for \<open>-5\<close>, and 0 for a value that is not numeric, be it one without
  any digit or, in general, one that \<open>parseInt\<close> reads as NaN.
\<close>

theorem handleChange_progress:
  "progress (handleChange fd ''status'' ''completed'') = 100 \<and>
   statusF (handleChange fd ''status'' ''completed'') = ''completed'' \<and>
   progress (handleChange fd ''progress'' ''150'') = 100 \<and>
   progress (handleChange fd ''progress'' ''-5'') = 0 \<and>
   (list_all (\<lambda>c. digit_of c = None) v \<longrightarrow> progress (handleChange fd ''progress'' v) = 0) \<and>
   (parseInt v = None \<longrightarrow> progress (handleChange fd ''progress'' v) = 0) \<and>
   (\<forall>n. parseInt v = Some n \<longrightarrow>
      progress (handleChange fd ''progress'' v) = (if n < 0 then 0 else if 100 < n then 100 else n)) \<and>
   0 \<le> progress (handleChange fd ''progress'' v) \<and> progress (handleChange fd ''progress'' v) \<le> 100"
proof -
  have a: "clampProgress ''150'' = 100" by code_simp
  have b: "clampProgress ''-5'' = 0" by code_simp
  have c: "progress (handleChange fd ''status'' ''completed'') = 100 \<and>
           statusF (handleChange fd ''status'' ''completed'') = ''completed''"
    by (simp add: handleChange_def setField_def)
  show ?thesis
    using a b c clampProgress_range [of v] clampProgress_NaN [of v] clampProgress_num [of v]
      parseInt_no_digit [of v]
    unfolding progress_handleChange_progress by auto
qed

theorem handleChange_progress_witness:
  "list_all (\<lambda>c. digit_of c = None) ''abc'' \<and> parseInt ''abc'' = None \<and>
   progress (handleChange form_half ''progress'' ''abc'') = 0 \<and>
   parseInt ''42%'' = Some 42 \<and>
   progress (handleChange form_half ''progress'' ''42%'') = 42 \<and>
   progress form_half = 50 \<and> progress (handleChange form_half ''status'' ''completed'') = 100"
proof -
  have nd: "list_all (\<lambda>c. digit_of c = None) ''abc''" by code_simp
  have nan: "parseInt ''abc'' = None" by code_simp
  have num: "parseInt ''42%'' = Some 42" by code_simp
  have p: "progress form_half = 50" by (simp add: form_half_def)
  from handleChange_progress [of form_half "''42%''"] num
  have "progress (handleChange form_half ''progress'' ''42%'') = 42" by simp
  with handleChange_progress [of form_half "''abc''"] nd nan num p
  show ?thesis by blast
qed

end
